theory Spec2Isabelle
  imports Main
begin

section \<open>The request executor: \<^verbatim>\<open>src/client/internal/client.ts\<close>\<close>

text \<open>
  The client is asynchronous TypeScript on top of the platform (Node, undici's
  \<^verbatim>\<open>fetch\<close>, the WHATWG \<^verbatim>\<open>URL\<close> class, the \<^verbatim>\<open>form-data\<close> package). A promise that
  rejects with an error \<open>e\<close> is the value \<open>Inl e\<close>, one that resolves with \<open>v\<close> is
  \<open>Inr v\<close>. What the platform does is a parameter of the model (the record
  \<open>platform\<close> below); what the repository's code does is translated line by line.
  The \<^verbatim>\<open>debug\<close> log lines of \<^verbatim>\<open>request\<close> write to the logger only and are left out.
\<close>

subsection \<open>Data\<close>

text \<open>\<^verbatim>\<open>method: 'GET' | 'POST' | 'PUT' | 'PATCH' | 'DELETE'\<close>\<close>

datatype http_method = GET | POST | PUT | PATCH | DELETE

text \<open>
  \<^verbatim>\<open>type Primitive = string | boolean | number\<close>. Numbers are modelled as integers
  (the ids and flags the endpoint clients send); how a number prints is the platform's
  \<open>number_to_string\<close>.
\<close>

datatype primitive = PString string | PBoolean bool | PNumber int

text \<open>A value of \<^verbatim>\<open>query?: Record<string, Primitive | Primitive[] | undefined>\<close>.\<close>

datatype query_value = Scalar primitive | Array "primitive list" | Undefined

text \<open>
  \<^verbatim>\<open>body?: any\<close>. The bodies a descriptor carries are JSON-serialisable values or a
  multipart form payload; an absent body and \<^verbatim>\<open>undefined\<close> are \<open>NoBody\<close>, and the
  numbers of a JSON value are integers here. A \<^verbatim>\<open>FormData\<close> object is modelled by
  what its two getters \<^verbatim>\<open>getBoundary()\<close> and \<^verbatim>\<open>getBuffer()\<close> return.
\<close>

datatype json =
    JNull
  | JBoolean bool
  | JNumber int
  | JString string
  | JArray "json list"
  | JObject "(string \<times> json) list"

record form_data =
  boundary :: string
  buffer :: string

datatype body_value = NoBody | FormDataBody form_data | JsonBody json

text \<open>
  \<^verbatim>\<open>type RequestData\<close>. An object of type \<^verbatim>\<open>Record<string, ...>\<close> is the list of its
  properties in the order \<^verbatim>\<open>for (... in ...)\<close> enumerates them (its keys are distinct);
  so are the headers, \<^verbatim>\<open>Record<string, string>\<close>, whose names are compared as they
  are written by the client and without regard to letter case by \<^verbatim>\<open>fetch\<close>.
\<close>

record request_data =
  http_method :: http_method
  path :: string
  body :: body_value
  query :: "(string \<times> query_value) list option"
  headers :: "(string \<times> string) list option"

text \<open>
  \<^verbatim>\<open>type ClientParams\<close>. \<^verbatim>\<open>projectId?: number\<close> is tested with
  \<^verbatim>\<open>'projectId' in this.params\<close>, which tells an object without the property from one
  that has it with the value \<^verbatim>\<open>undefined\<close>: \<open>NoProperty\<close>, \<open>Property None\<close>
  and \<open>Property (Some n)\<close>.
\<close>

datatype projectId_property = NoProperty | Property "int option"

record client_params =
  apiUrl :: string
  apiKey :: string
  projectId :: projectId_property

text \<open>
  The body of a response is a stream: the chunks not read yet, how the source ends once
  they are read (\<open>failure = Some msg\<close>: it errors instead of closing), and whether a
  reader has reached the end.
\<close>

record body_stream =
  unread :: "string list"
  failure :: "string option"
  ended :: bool

text \<open>undici's \<^verbatim>\<open>Response\<close>: \<^verbatim>\<open>res.body\<close> is \<^verbatim>\<open>null\<close> or a stream.\<close>

record response =
  status :: int
  statusText :: string
  res_headers :: "string \<rightharpoonup> string"
  res_body :: "body_stream option"

text \<open>
  \<^verbatim>\<open>res.ok\<close> is a getter of the platform's \<^verbatim>\<open>Response\<close>; the Fetch standard
  defines it as: the status is in the range 200 to 299.
\<close>

definition ok :: "response \<Rightarrow> bool" where
  "ok res = (200 \<le> status res \<and> status res \<le> 299)"

text \<open>
  What a promise of the client rejects with: the repository's \<^verbatim>\<open>HttpError\<close>
  (\<^verbatim>\<open>new HttpError(res)\<close>, with \<^verbatim>\<open>e.response\<close>), or an error of the platform
  (\<^verbatim>\<open>new URL\<close> throwing on a malformed URL, \<^verbatim>\<open>fetch\<close> rejecting on a transport
  failure, a body stream that errors while it is read).
\<close>

datatype error =
    HttpError response
  | UrlError string
  | FetchError string
  | StreamError string

text \<open>
  A \<^verbatim>\<open>URL\<close> object: its text up to the query, and \<^verbatim>\<open>url.searchParams\<close>, the list
  of name/value pairs of its query string.
\<close>

record url =
  href_base :: string
  searchParams :: "(string \<times> string) list"

text \<open>The arguments of one call of \<^verbatim>\<open>fetch(url, {method, headers, body})\<close>.\<close>

record fetch_call =
  f_url :: url
  f_method :: http_method
  f_headers :: "(string \<times> string) list"
  f_body :: "string option"

text \<open>
  The platform: the module variable \<^verbatim>\<open>version\<close> as it stands when the request is
  made (\<^verbatim>\<open>'0.0.0'\<close> until package.json has been read), how a number prints in
  \<^verbatim>\<open>String(v)\<close> and in a template literal, \<^verbatim>\<open>JSON.stringify\<close>,
  \<^verbatim>\<open>new URL(path, base)\<close> (which throws, or gives a URL that already carries the query
  string of \<open>path\<close>, if it has one), and \<^verbatim>\<open>fetch\<close> (which rejects, or resolves with a
  response of any status).
\<close>

record platform =
  version :: string
  number_to_string :: "int \<Rightarrow> string"
  JSON_stringify :: "json \<Rightarrow> string"
  new_URL :: "string \<Rightarrow> string \<Rightarrow> string + url"
  fetch :: "fetch_call \<Rightarrow> string + response"

subsection \<open>Platform functions the client calls\<close>

text \<open>\<^verbatim>\<open>String(v)\<close> on a \<^verbatim>\<open>Primitive\<close>.\<close>

fun String_of :: "platform \<Rightarrow> primitive \<Rightarrow> string" where
  "String_of pf (PString s) = s"
| "String_of pf (PBoolean b) = (if b then ''true'' else ''false'')"
| "String_of pf (PNumber n) = number_to_string pf n"

text \<open>
  \<^verbatim>\<open>URLSearchParams.append(name, value)\<close> adds a pair at the end.
  \<^verbatim>\<open>URLSearchParams.set(name, value)\<close>: if pairs of that name exist, the first takes the
  value and the others are removed; otherwise the pair is added at the end.
\<close>

definition searchParams_append ::
  "string \<Rightarrow> string \<Rightarrow> (string \<times> string) list \<Rightarrow> (string \<times> string) list" where
  "searchParams_append k v sp = sp @ [(k, v)]"

fun searchParams_set ::
  "string \<Rightarrow> string \<Rightarrow> (string \<times> string) list \<Rightarrow> (string \<times> string) list" where
  "searchParams_set k v [] = [(k, v)]"
| "searchParams_set k v (p # sp) =
     (if fst p = k then (k, v) # filter (\<lambda>q. fst q \<noteq> k) sp
      else p # searchParams_set k v sp)"

text \<open>
  Assigning a property of an object, \<^verbatim>\<open>obj[k] = v\<close> (also a key written after a spread
  in an object literal): a property of exactly that name takes the value where it
  stands, otherwise the property is added last.
\<close>

fun set_property :: "string \<Rightarrow> string \<Rightarrow> (string \<times> string) list \<Rightarrow> (string \<times> string) list" where
  "set_property k v [] = [(k, v)]"
| "set_property k v (p # ps) = (if fst p = k then (k, v) # ps else p # set_property k v ps)"

text \<open>
  The headers of the request \<^verbatim>\<open>fetch\<close> sends are the \<^verbatim>\<open>Headers\<close> object it fills from
  the record it is given, as the Fetch standard defines it: each property is appended in
  order, names match without regard to the case of ASCII letters, a value loses the HTTP
  white space (tab, line feed, carriage return, space) at its ends, and the values of
  one name are joined with a comma and a space. \<open>entries_named\<close> gives the values
  a record holds for a name, \<open>Headers_get\<close> is that object's \<^verbatim>\<open>get(name)\<close>,
  \<open>None\<close> for \<^verbatim>\<open>null\<close>. (A record with a name or a value that is not valid in
  HTTP makes \<^verbatim>\<open>fetch\<close> reject; that is part of what the platform's \<open>fetch\<close> does.)
\<close>

definition lower_char :: "char \<Rightarrow> char" where
  "lower_char c =
     (case map_of (zip ''ABCDEFGHIJKLMNOPQRSTUVWXYZ'' ''abcdefghijklmnopqrstuvwxyz'') c of
        None \<Rightarrow> c
      | Some l \<Rightarrow> l)"

definition lower :: "string \<Rightarrow> string" where
  "lower s = map lower_char s"

definition http_whitespace :: "char \<Rightarrow> bool" where
  "http_whitespace c = (c \<in> set [CHR 0x09, CHR 0x0A, CHR 0x0D, CHR '' ''])"

definition normalize_value :: "string \<Rightarrow> string" where
  "normalize_value v = rev (dropWhile http_whitespace (rev (dropWhile http_whitespace v)))"

fun join_with :: "string \<Rightarrow> string list \<Rightarrow> string" where
  "join_with sep [] = []"
| "join_with sep [x] = x"
| "join_with sep (x # y # ys) = x @ sep @ join_with sep (y # ys)"

definition entries_named :: "string \<Rightarrow> (string \<times> string) list \<Rightarrow> string list" where
  "entries_named name hs = map snd (filter (\<lambda>p. lower (fst p) = lower name) hs)"

definition Headers_get :: "string \<Rightarrow> (string \<times> string) list \<Rightarrow> string option" where
  "Headers_get name hs =
     (case entries_named name hs of
        [] \<Rightarrow> None
      | v # vs \<Rightarrow> Some (join_with '', '' (map normalize_value (v # vs))))"

text \<open>
  JavaScript's truthiness, as \<^verbatim>\<open>if (req.body)\<close> reads it: \<^verbatim>\<open>undefined\<close>,
  \<^verbatim>\<open>null\<close>, \<^verbatim>\<open>false\<close>, \<^verbatim>\<open>0\<close> and \<^verbatim>\<open>''\<close> are falsy, every object is truthy.
\<close>

fun truthy_json :: "json \<Rightarrow> bool" where
  "truthy_json JNull = False"
| "truthy_json (JBoolean b) = b"
| "truthy_json (JNumber n) = (n \<noteq> 0)"
| "truthy_json (JString s) = (s \<noteq> [])"
| "truthy_json (JArray xs) = True"
| "truthy_json (JObject kvs) = True"

fun truthy :: "body_value \<Rightarrow> bool" where
  "truthy NoBody = False"
| "truthy (FormDataBody fd) = True"
| "truthy (JsonBody j) = truthy_json j"

subsection \<open>\<^verbatim>\<open>request\<close>\<close>

text \<open>The \<^verbatim>\<open>user-agent\<close> value: \<^verbatim>\<open>`Tolgee-CLI/${version} (+https://github.com/tolgee/tolgee-cli)`\<close>.\<close>

definition user_agent :: "platform \<Rightarrow> string" where
  "user_agent pf = ''Tolgee-CLI/'' @ version pf @ '' (+https://github.com/tolgee/tolgee-cli)''"

text \<open>The call of \<^verbatim>\<open>fetch\<close> that \<^verbatim>\<open>request(url, method, headers, body)\<close> makes.\<close>

definition fetch_init ::
  "platform \<Rightarrow> url \<Rightarrow> http_method \<Rightarrow> (string \<times> string) list \<Rightarrow> string option \<Rightarrow> fetch_call" where
  "fetch_init pf u m hs b =
     \<lparr>f_url = u, f_method = m, f_headers = set_property ''user-agent'' (user_agent pf) hs,
      f_body = b\<rparr>"

text \<open>
  \<^verbatim>\<open>export async function request(url, method, headers, body)\<close>: one call of
  \<^verbatim>\<open>fetch\<close>; \<^verbatim>\<open>if (!res.ok) throw new HttpError(res); return res\<close>.
\<close>

definition request ::
  "platform \<Rightarrow> url \<Rightarrow> http_method \<Rightarrow> (string \<times> string) list \<Rightarrow> string option \<Rightarrow> error + response" where
  "request pf u m hs b =
     (case fetch pf (fetch_init pf u m hs b) of
        Inl msg \<Rightarrow> Inl (FetchError msg)
      | Inr res \<Rightarrow> if \<not> ok res then Inl (HttpError res) else Inr res)"

subsection \<open>\<^verbatim>\<open>class Client\<close>\<close>

text \<open>
  \<^verbatim>\<open>`/v2/projects/${this.params.projectId}`\<close>: a template literal prints a number as
  \<^verbatim>\<open>String\<close> does, and \<^verbatim>\<open>undefined\<close> as the word \<^verbatim>\<open>undefined\<close>.
\<close>

fun template_of :: "platform \<Rightarrow> int option \<Rightarrow> string" where
  "template_of pf None = ''undefined''"
| "template_of pf (Some n) = number_to_string pf n"

text \<open>
  \<^verbatim>\<open>get projectUrl()\<close>:
  \<^verbatim>\<open>'projectId' in this.params && this.params.projectId !== -1 ? `/v2/projects/${...}` : '/v2/projects'\<close>.
\<close>

definition projectUrl :: "platform \<Rightarrow> client_params \<Rightarrow> string" where
  "projectUrl pf params =
     (case projectId params of
        NoProperty \<Rightarrow> ''/v2/projects''
      | Property v \<Rightarrow>
          if v \<noteq> Some (- 1) then ''/v2/projects/'' @ template_of pf v else ''/v2/projects'')"

text \<open>
  The inner loop \<^verbatim>\<open>for (const v of val) url.searchParams.append(param, String(v))\<close>.
\<close>

fun append_each ::
  "platform \<Rightarrow> string \<Rightarrow> primitive list \<Rightarrow> (string \<times> string) list \<Rightarrow> (string \<times> string) list" where
  "append_each pf param [] sp = sp"
| "append_each pf param (v # vs) sp =
     append_each pf param vs (searchParams_append param (String_of pf v) sp)"

text \<open>
  The outer loop \<^verbatim>\<open>for (const param in req.query)\<close>: an \<^verbatim>\<open>undefined\<close> value does
  nothing, an array appends one pair per element, any other value is \<^verbatim>\<open>set\<close>.
\<close>

fun add_query ::
  "platform \<Rightarrow> (string \<times> query_value) list \<Rightarrow> (string \<times> string) list \<Rightarrow> (string \<times> string) list" where
  "add_query pf [] sp = sp"
| "add_query pf ((param, val) # rest) sp =
     add_query pf rest
       (case val of
          Undefined \<Rightarrow> sp
        | Array vs \<Rightarrow> append_each pf param vs sp
        | Scalar v \<Rightarrow> searchParams_set param (String_of pf v) sp)"

text \<open>\<^verbatim>\<open>if (req.query) { ... }\<close>, on the URL made from the path.\<close>

definition with_query :: "platform \<Rightarrow> request_data \<Rightarrow> url \<Rightarrow> url" where
  "with_query pf req u =
     (case query req of
        None \<Rightarrow> u
      | Some q \<Rightarrow> u\<lparr>searchParams := add_query pf q (searchParams u)\<rparr>)"

text \<open>The headers a descriptor supplies: \<^verbatim>\<open>req.headers || {}\<close>.\<close>

definition descriptor_headers :: "request_data \<Rightarrow> (string \<times> string) list" where
  "descriptor_headers req = (case headers req of None \<Rightarrow> [] | Some h \<Rightarrow> h)"

text \<open>\<^verbatim>\<open>const headers = { ...(req.headers || {}), 'x-api-key': this.params.apiKey }\<close>\<close>

definition base_headers :: "client_params \<Rightarrow> request_data \<Rightarrow> (string \<times> string) list" where
  "base_headers params req =
     set_property ''x-api-key'' (apiKey params) (descriptor_headers req)"

text \<open>
  \<^verbatim>\<open>let body = undefined; if (req.body) { if (req.body instanceof FormData) ... else ... }\<close>:
  the headers and the body handed to \<^verbatim>\<open>request\<close>.
\<close>

definition with_body ::
  "platform \<Rightarrow> body_value \<Rightarrow> (string \<times> string) list \<Rightarrow> (string \<times> string) list \<times> string option" where
  "with_body pf b hs =
     (if truthy b then
        (case b of
           FormDataBody fd \<Rightarrow>
             (set_property ''content-type'' (''multipart/form-data; boundary='' @ boundary fd) hs,
              Some (buffer fd))
         | JsonBody j \<Rightarrow>
             (set_property ''content-type'' ''application/json'' hs, Some (JSON_stringify pf j))
         | NoBody \<Rightarrow> (hs, None))
      else (hs, None))"

text \<open>
  \<^verbatim>\<open>Client.request(req)\<close> up to its last line: the arguments it hands to
  \<^verbatim>\<open>request\<close>, as the call of \<^verbatim>\<open>fetch\<close> they become; \<open>Inl\<close> when
  \<^verbatim>\<open>new URL(req.path, this.params.apiUrl)\<close> throws.
\<close>

definition issued :: "platform \<Rightarrow> client_params \<Rightarrow> request_data \<Rightarrow> error + fetch_call" where
  "issued pf params req =
     (case new_URL pf (path req) (apiUrl params) of
        Inl msg \<Rightarrow> Inl (UrlError msg)
      | Inr u \<Rightarrow>
          (case with_body pf (body req) (base_headers params req) of
             (hs, b) \<Rightarrow> Inr (fetch_init pf (with_query pf req u) (http_method req) hs b)))"

text \<open>\<^verbatim>\<open>protected async request(req: RequestData): Promise<Response>\<close>\<close>

definition Client_request :: "platform \<Rightarrow> client_params \<Rightarrow> request_data \<Rightarrow> error + response" where
  "Client_request pf params req =
     (case new_URL pf (path req) (apiUrl params) of
        Inl msg \<Rightarrow> Inl (UrlError msg)
      | Inr u \<Rightarrow>
          (case with_body pf (body req) (base_headers params req) of
             (hs, b) \<Rightarrow> request pf (with_query pf req u) (http_method req) hs b))"

text \<open>
  \<^verbatim>\<open>for await (const _chunk of res.body);\<close>: each turn of the loop reads one chunk and
  drops it; the loop ends when the stream reports its end, and throws if the stream
  errors.
\<close>

fun read_chunks :: "string list \<Rightarrow> string list" where
  "read_chunks [] = []"
| "read_chunks (chunk # rest) = read_chunks rest"

definition drain :: "body_stream \<Rightarrow> error + body_stream" where
  "drain s =
     (case failure s of
        Some msg \<Rightarrow> Inl (StreamError msg)
      | None \<Rightarrow> Inr (s\<lparr>unread := read_chunks (unread s), ended := True\<rparr>))"

text \<open>
  \<^verbatim>\<open>protected async requestVoid(req)\<close>:
  \<^verbatim>\<open>const res = await this.request(req); if (res.body) { for await (...); }\<close>.
  The promise resolves with no value; the model returns the response as the call leaves
  it, which is where the reading shows.
\<close>

definition requestVoid :: "platform \<Rightarrow> client_params \<Rightarrow> request_data \<Rightarrow> error + response" where
  "requestVoid pf params req =
     (case Client_request pf params req of
        Inl e \<Rightarrow> Inl e
      | Inr res \<Rightarrow>
          (case res_body res of
             None \<Rightarrow> Inr res
           | Some s \<Rightarrow>
               (case drain s of
                  Inl e \<Rightarrow> Inl e
                | Inr s' \<Rightarrow> Inr (res\<lparr>res_body := Some s'\<rparr>))))"

section \<open>The import endpoints: \<^verbatim>\<open>src/client/import.ts\<close>\<close>

text \<open>The descriptor of \<^verbatim>\<open>deleteImport\<close>: \<^verbatim>\<open>{ method: 'DELETE', path: `${this.projectUrl}/import` }\<close>.\<close>

definition deleteImport_data :: "platform \<Rightarrow> client_params \<Rightarrow> request_data" where
  "deleteImport_data pf params =
     \<lparr>http_method = DELETE, path = projectUrl pf params @ ''/import'', body = NoBody,
      query = None, headers = None\<rparr>"

text \<open>\<^verbatim>\<open>async deleteImport(): Promise<void>\<close>: \<^verbatim>\<open>await this.requestVoid({...})\<close>.\<close>

definition deleteImport :: "platform \<Rightarrow> client_params \<Rightarrow> error + unit" where
  "deleteImport pf params =
     (case requestVoid pf params (deleteImport_data pf params) of
        Inl e \<Rightarrow> Inl e
      | Inr res \<Rightarrow> Inr ())"

text \<open>
  \<^verbatim>\<open>async deleteImportIfExists()\<close>:
  \<^verbatim>\<open>try { await this.deleteImport() } catch (e) { if (e instanceof HttpError && e.response.status === 404) return; throw e }\<close>.
\<close>

definition deleteImportIfExists :: "platform \<Rightarrow> client_params \<Rightarrow> error + unit" where
  "deleteImportIfExists pf params =
     (case deleteImport pf params of
        Inr u \<Rightarrow> Inr ()
      | Inl e \<Rightarrow>
          (case e of
             HttpError res \<Rightarrow> if status res = 404 then Inr () else Inl e
           | _ \<Rightarrow> Inl e))"





section \<open>The credential resolver: \<^verbatim>\<open>src/config/credentials.ts\<close>\<close>

text \<open>
  The sources hold the test suite of the resolver (\<^verbatim>\<open>saveApiKey\<close> and \<^verbatim>\<open>getApiKey\<close>
  are imported from \<^verbatim>\<open>src/config/credentials\<close>), not the module. Its definitions below
  follow sections 3 and 4.2 of the specification; the values are those of the tests.
\<close>

text \<open>
  Modelled from the spec: the \<^verbatim>\<open>Credential\<close> union of section 3 (credentials.ts, which
  declares it, is missing): a PAT \<^verbatim>\<open>{ key, username, expires }\<close> and a PAK
  \<^verbatim>\<open>{ key, username, project: { id, name }, expires }\<close>; \<^verbatim>\<open>expires\<close> is 0 or a time
  in milliseconds.
\<close>

record project =
  project_id :: int
  project_name :: string

datatype credential =
    is_PAT: PAT (key: string) (username: string) (expires: int)
  | is_PAK: PAK (key: string) (username: string) (project: project) (expires: int)

text \<open>
  Modelled from the spec: the store document of sections 3 and 4.1 (credentials.ts is
  missing): a mapping from the host of an instance to the list of its credentials, in
  insertion order; \<^verbatim>\<open>load\<close> gives this mapping and \<^verbatim>\<open>save\<close> replaces it, so the
  persisted document is the state the two operations pass along.
\<close>

type_synonym store = "string \<rightharpoonup> credential list"

text \<open>
  Modelled from the spec: "fetch the credential list for instance (empty if absent)",
  section 4.2 (credentials.ts is missing).
\<close>

definition credentials_of :: "store \<Rightarrow> string \<Rightarrow> credential list" where
  "credentials_of st instance = (case st instance of None \<Rightarrow> [] | Some creds \<Rightarrow> creds)"

text \<open>
  Modelled from the spec: the identity of step 3 of \<^verbatim>\<open>saveApiKey\<close>, section 4.2
  (credentials.ts is missing): "for a PAT, any existing PAT; for a PAK, any existing PAK
  with the same project.id".
\<close>

fun same_identity :: "credential \<Rightarrow> credential \<Rightarrow> bool" where
  "same_identity (PAT k u e) (PAT k' u' e') = True"
| "same_identity (PAK k u p e) (PAK k' u' p' e') = (project_id p' = project_id p)"
| "same_identity new existing = False"

text \<open>
  Modelled from the spec: \<^verbatim>\<open>saveApiKey(instance, credential)\<close>, section 4.2
  (credentials.ts is missing): load the document, fetch or create the list of the
  instance, remove the entries of the same identity, append the new credential, persist.
\<close>

definition saveApiKey :: "store \<Rightarrow> string \<Rightarrow> credential \<Rightarrow> store" where
  "saveApiKey st instance cred =
     st(instance \<mapsto> filter (\<lambda>c. \<not> same_identity cred c) (credentials_of st instance) @ [cred])"

text \<open>
  Modelled from the spec: "expired (\<^verbatim>\<open>expires != 0 and expires < now\<close>)", section 4.2
  (credentials.ts is missing).
\<close>

definition isExpired :: "int \<Rightarrow> credential \<Rightarrow> bool" where
  "isExpired now c = (expires c \<noteq> 0 \<and> expires c < now)"

text \<open>
  Modelled from the spec: the selection of step 4 of \<^verbatim>\<open>getApiKey\<close>, section 4.2
  (credentials.ts is missing): a valid PAT if there is one (the first found), else a
  valid PAK of the requested project, else \<^verbatim>\<open>null\<close>.
\<close>

definition select_key :: "credential list \<Rightarrow> int \<Rightarrow> string option" where
  "select_key valid requested =
     (case find is_PAT valid of
        Some c \<Rightarrow> Some (key c)
      | None \<Rightarrow>
          (case find (\<lambda>c. is_PAK c \<and> project_id (project c) = requested) valid of
             Some c \<Rightarrow> Some (key c)
           | None \<Rightarrow> None))"

text \<open>
  Modelled from the spec: \<^verbatim>\<open>getApiKey(instance, projectId)\<close>, section 4.2
  (credentials.ts is missing): partition the list of the instance at the time \<open>now\<close>,
  persist the pruned document if any entry was expired, select among the valid entries.
  The result is the key (or \<open>None\<close> for \<^verbatim>\<open>null\<close>) and the persisted document after
  the call.
\<close>

definition getApiKey :: "int \<Rightarrow> store \<Rightarrow> string \<Rightarrow> int \<Rightarrow> string option \<times> store" where
  "getApiKey now st instance requested =
     (let creds = credentials_of st instance;
          expired = filter (isExpired now) creds;
          valid = filter (\<lambda>c. \<not> isExpired now c) creds
      in (select_key valid requested,
          if expired \<noteq> [] then st(instance \<mapsto> valid) else st))"

text \<open>
  Modelled from the spec: the invariants of the store document, section 3 (credentials.ts
  is missing): at most one PAT per instance, at most one PAK per instance and project id.
\<close>

definition one_per_identity :: "credential list \<Rightarrow> bool" where
  "one_per_identity creds =
     (length (filter is_PAT creds) \<le> 1
      \<and> distinct (map (\<lambda>c. project_id (project c)) (filter is_PAK creds)))"

text \<open>
  Modelled from the spec: the same invariants for the whole document, every instance of
  section 3's mapping (credentials.ts is missing).
\<close>

definition store_invariant :: "store \<Rightarrow> bool" where
  "store_invariant st = (\<forall>instance. one_per_identity (credentials_of st instance))"

section \<open>Observations\<close>

text \<open>
  \<^verbatim>\<open>URLSearchParams.getAll(name)\<close>: the values of the pairs of that name in a query
  string, in order.
\<close>

definition getAll :: "string \<Rightarrow> (string \<times> string) list \<Rightarrow> string list" where
  "getAll k sp = map snd (filter (\<lambda>p. fst p = k) sp)"


section \<open>Example values\<close>

text \<open>
  A platform to run the client on: numbers print in decimal, \<^verbatim>\<open>new URL\<close> puts an
  absolute path after the base and splits its query string (the text after \<^verbatim>\<open>?\<close>)
  at \<^verbatim>\<open>&\<close> and \<^verbatim>\<open>=\<close>, a JSON value prints without white space, and the server
  is a function from the call to its answer.
\<close>

fun digits_of :: "nat \<Rightarrow> string" where
  "digits_of n =
     (if n < 10 then [''0123456789'' ! n]
      else digits_of (n div 10) @ [''0123456789'' ! (n mod 10)])"

declare digits_of.simps [simp del]

definition decimal :: "int \<Rightarrow> string" where
  "decimal i = (if i < 0 then CHR ''-'' # digits_of (nat (- i)) else digits_of (nat i))"

definition quoted :: "string \<Rightarrow> string" where
  "quoted s = CHR 0x22 # s @ [CHR 0x22]"

fun stringify :: "json \<Rightarrow> string" where
  "stringify JNull = ''null''"
| "stringify (JBoolean b) = (if b then ''true'' else ''false'')"
| "stringify (JNumber n) = decimal n"
| "stringify (JString s) = quoted s"
| "stringify (JArray xs) = ''['' @ join_with '','' (map stringify xs) @ '']''"
| "stringify (JObject kvs) =
     ''{'' @ join_with '','' (map (\<lambda>kv. quoted (fst kv) @ '':'' @ stringify (snd kv)) kvs) @ ''}''"

definition split_at :: "char \<Rightarrow> string \<Rightarrow> string \<times> string" where
  "split_at c s = (takeWhile (\<lambda>x. x \<noteq> c) s, drop 1 (dropWhile (\<lambda>x. x \<noteq> c) s))"

definition split_all :: "char \<Rightarrow> string \<Rightarrow> string list" where
  "split_all c s = foldr (\<lambda>x acc. if x = c then [] # acc else (x # hd acc) # tl acc) s [[]]"

definition parse_query :: "string \<Rightarrow> (string \<times> string) list" where
  "parse_query q = (if q = [] then [] else map (split_at CHR ''='') (split_all CHR ''&'' q))"

definition parse_url :: "string \<Rightarrow> string \<Rightarrow> string + url" where
  "parse_url p base =
     Inr \<lparr>href_base = base @ fst (split_at CHR ''?'' p),
          searchParams = parse_query (snd (split_at CHR ''?'' p))\<rparr>"

definition example_platform :: "(fetch_call \<Rightarrow> string + response) \<Rightarrow> platform" where
  "example_platform server =
     \<lparr>version = ''1.0.0'', number_to_string = decimal, JSON_stringify = stringify,
      new_URL = parse_url, fetch = server\<rparr>"

text \<open>A server that answers every call with the given status and a body of one chunk.\<close>

definition answers :: "int \<Rightarrow> fetch_call \<Rightarrow> string + response" where
  "answers code call =
     Inr \<lparr>status = code, statusText = [], res_headers = Map.empty,
          res_body = Some \<lparr>unread = [''{}''], failure = None, ended = False\<rparr>\<rparr>"

text \<open>A server that cannot be reached.\<close>

definition unreachable :: "fetch_call \<Rightarrow> string + response" where
  "unreachable call = Inl ''ECONNREFUSED''"

text \<open>The client of the project of the tests' \<^verbatim>\<open>.tolgeerc\<close>, and one without a project.\<close>

definition example_params :: client_params where
  "example_params =
     \<lparr>apiUrl = ''https://app.tolgee.io'', apiKey = ''tgpat_xxxxxxxxxx'',
      projectId = Property (Some 1337)\<rparr>"

definition example_params_unscoped :: client_params where
  "example_params_unscoped =
     \<lparr>apiUrl = ''https://app.tolgee.io'', apiKey = ''tgpat_xxxxxxxxxx'',
      projectId = NoProperty\<rparr>"

text \<open>The instances and credentials of the resolver's tests.\<close>

definition TG_1 :: string where "TG_1 = ''app.tolgee.io''"
definition TG_2 :: string where "TG_2 = ''meow.local''"
definition TG_3 :: string where "TG_3 = ''nya.local''"

definition PAT_1 :: credential where "PAT_1 = PAT ''tgpat_xxxxxxxxxx'' ''sleepycat'' 0"
definition PAT_2 :: credential where "PAT_2 = PAT ''tgpat_yyyyyyyyyy'' ''sleepycat'' 0"
definition PAT_3 :: credential where "PAT_3 = PAT ''tgpat_zzzzzzzzzz'' ''sleepycat'' 0"
definition PAT_4 :: credential where "PAT_4 = PAT ''tgpat_expired'' ''sleepycat'' 2"

definition PAK_1 :: credential where
  "PAK_1 = PAK ''tgpak_gfpw2zlpo4qhk53v'' ''sleepycat''
     \<lparr>project_id = 1, project_name = ''project 1''\<rparr> 0"

definition PAK_2 :: credential where
  "PAK_2 = PAK ''tgpak_gjpw2zlpo4qhk53v'' ''sleepycat''
     \<lparr>project_id = 2, project_name = ''project 2''\<rparr> 0"

definition PAK_3 :: credential where
  "PAK_3 = PAK ''tgpak_gfpwo4tsojzhe4ts'' ''sleepycat''
     \<lparr>project_id = 1, project_name = ''project 1''\<rparr> 0"

text \<open>The store the \<^verbatim>\<open>beforeAll\<close> of the tests' \<^verbatim>\<open>load\<close> group builds, from no file.\<close>

definition load_store :: store where
  "load_store =
     saveApiKey (saveApiKey (saveApiKey (saveApiKey (saveApiKey Map.empty
       TG_1 PAK_1) TG_1 PAK_2) TG_2 PAT_1) TG_1 PAK_1) TG_3 PAT_4"

text \<open>A time of the tests' run, in milliseconds since the epoch.\<close>

definition test_now :: int where
  "test_now = 1700000000000"

section \<open>Auxiliary facts\<close>


lemma Client_request_issued:
  "Client_request pf params req =
     (case issued pf params req of
        Inl e \<Rightarrow> Inl e
      | Inr call \<Rightarrow>
          (case fetch pf call of
             Inl msg \<Rightarrow> Inl (FetchError msg)
           | Inr res \<Rightarrow> if \<not> ok res then Inl (HttpError res) else Inr res))"
  by (auto simp: Client_request_def issued_def request_def split: sum.splits prod.splits)

lemma issued_error: "issued pf params req = Inl e \<Longrightarrow> \<exists>msg. e = UrlError msg"
  by (auto simp: issued_def split: sum.splits prod.splits)

lemma filter_name_others:
  "k \<noteq> k' \<Longrightarrow>
     filter (\<lambda>p. fst p = k) (filter (\<lambda>q. fst q \<noteq> k') sp) = filter (\<lambda>p. fst p = k) sp"
  by (induction sp) auto

lemma filter_name_removed:
  "filter (\<lambda>p. fst p = k) (filter (\<lambda>q. fst q \<noteq> k) sp) = []"
  by (induction sp) auto

lemma getAll_set: "getAll k (searchParams_set k' v sp) = (if k = k' then [v] else getAll k sp)"
proof (induction sp)
  case Nil
  then show ?case by (simp add: getAll_def)
next
  case (Cons p sp)
  then show ?case
    unfolding getAll_def searchParams_set.simps
    by (auto simp add: filter_name_others filter_name_removed simp del: filter_filter)
qed

lemma getAll_append_each:
  "getAll k (append_each pf k' vs sp) =
     getAll k sp @ (if k = k' then map (String_of pf) vs else [])"
  by (induction vs arbitrary: sp) (auto simp: getAll_def searchParams_append_def)

lemma getAll_add_query_other:
  "k \<notin> fst ` set q \<Longrightarrow> getAll k (add_query pf q sp) = getAll k sp"
proof (induction q arbitrary: sp)
  case Nil
  then show ?case by simp
next
  case (Cons kv q)
  obtain k' val where kv: "kv = (k', val)" by (cases kv)
  with Cons.prems have "k \<noteq> k'" "k \<notin> fst ` set q" by auto
  then show ?case
    using Cons.IH by (cases val) (simp_all add: kv getAll_set getAll_append_each)
qed

lemma getAll_add_query:
  assumes "distinct (map fst q)" and "(k, val) \<in> set q"
  shows "getAll k (add_query pf q sp) =
     (case val of
        Scalar v \<Rightarrow> [String_of pf v]
      | Array vs \<Rightarrow> getAll k sp @ map (String_of pf) vs
      | Undefined \<Rightarrow> getAll k sp)"
  using assms
proof (induction q arbitrary: sp)
  case Nil
  then show ?case by simp
next
  case (Cons kv q)
  obtain k' val' where kv: "kv = (k', val')" by (cases kv)
  show ?case
  proof (cases "(k, val) = kv")
    case True
    with Cons.prems kv have fresh: "k \<notin> fst ` set q" and eq: "k' = k" "val' = val" by auto
    show ?thesis
      unfolding kv eq
      by (cases val) (simp_all add: getAll_add_query_other [OF fresh] getAll_set getAll_append_each)
  next
    case False
    with Cons.prems kv have mem: "(k, val) \<in> set q" and dist: "distinct (map fst q)"
      and ne: "k \<noteq> k'"
      by (auto simp: image_iff)
    have step: "getAll k (case val' of
          Undefined \<Rightarrow> sp
        | Array vs \<Rightarrow> append_each pf k' vs sp
        | Scalar v \<Rightarrow> searchParams_set k' (String_of pf v) sp) = getAll k sp"
      using ne by (cases val') (simp_all add: getAll_set getAll_append_each)
    show ?thesis
      using Cons.IH [OF dist mem] step
      by (cases val) (simp_all add: kv)
  qed
qed

lemma at_most_one:
  assumes "length (filter P xs) \<le> 1" "x \<in> set xs" "P x" "y \<in> set xs" "P y"
  shows "x = y"
proof (rule ccontr)
  assume "x \<noteq> y"
  with assms have "distinct [x, y]" "set [x, y] \<subseteq> set (filter P xs)" by auto
  then have "length [x, y] \<le> length (filter P xs)"
    by (metis card_mono distinct_card List.finite_set length_remdups_card_conv length_remdups_leq order_trans)
  with assms(1) show False by simp
qed

lemma find_in: "find P xs = Some x \<Longrightarrow> x \<in> set xs \<and> P x"
  by (induction xs) (auto split: if_splits)

lemma find_None: "(find P xs = None) = (\<forall>x\<in>set xs. \<not> P x)"
  by (induction xs) auto

lemma one_per_key:
  assumes "distinct (map f (filter Q xs))" "x \<in> set xs" "Q x" "y \<in> set xs" "Q y" "f x = f y"
  shows "x = y"
proof -
  from assms(1) have "inj_on f (set (filter Q xs))" by (simp add: distinct_map)
  with assms(2-6) show ?thesis by (auto dest: inj_onD)
qed

lemma select_key_valid:
  "select_key valid P = Some k \<Longrightarrow> \<exists>c\<in>set valid. key c = k"
  by (auto simp: select_key_def split: option.splits dest: find_in)

lemma is_PAK_iff: "is_PAK c = (\<not> is_PAT c)"
  by (cases c) simp_all

lemma same_identity_PAT: "is_PAT cred \<Longrightarrow> same_identity cred c = is_PAT c"
  by (cases cred; cases c) simp_all

lemma same_identity_PAK:
  "is_PAK cred \<Longrightarrow>
     same_identity cred c = (is_PAK c \<and> project_id (project c) = project_id (project cred))"
  by (cases cred; cases c) simp_all

lemma credentials_of_save:
  "credentials_of (saveApiKey st H cred) H' =
     (if H' = H then filter (\<lambda>c. \<not> same_identity cred c) (credentials_of st H) @ [cred]
      else credentials_of st H')"
  by (simp add: saveApiKey_def credentials_of_def)

lemma credentials_of_empty: "credentials_of Map.empty H = []"
  by (simp add: credentials_of_def)

lemma one_per_identity_save:
  assumes "one_per_identity creds"
  shows "one_per_identity (filter (\<lambda>c. \<not> same_identity cred c) creds @ [cred])"
proof (cases cred)
  case (PAT k u e)
  then have pat: "is_PAT cred" by simp
  have "filter is_PAT (filter (\<lambda>c. \<not> same_identity cred c) creds) = []"
    by (auto simp: filter_empty_conv same_identity_PAT [OF pat])
  moreover have "filter is_PAK (filter (\<lambda>c. \<not> same_identity cred c) creds) = filter is_PAK creds"
    by (auto simp: same_identity_PAT [OF pat] credential.disc_eq_case intro!: filter_cong
        split: credential.splits)
  ultimately show ?thesis using assms PAT by (simp add: one_per_identity_def)
next
  case (PAK k u p e)
  then have pak: "is_PAK cred" by simp
  have pats: "filter is_PAT (filter (\<lambda>c. \<not> same_identity cred c) creds) = filter is_PAT creds"
    by (auto simp: same_identity_PAK [OF pak] credential.disc_eq_case intro!: filter_cong
        split: credential.splits)
  have p: "project cred = p" using PAK by simp
  have paks: "filter is_PAK (filter (\<lambda>c. \<not> same_identity cred c) creds)
      = filter (\<lambda>c. project_id (project c) \<noteq> project_id p) (filter is_PAK creds)"
    by (auto simp: same_identity_PAK [OF pak] p intro!: filter_cong)
  have "distinct (map (\<lambda>c. project_id (project c)) (filter is_PAK creds))"
    using assms by (simp add: one_per_identity_def)
  then have d: "distinct (map (\<lambda>c. project_id (project c))
      (filter (\<lambda>c. project_id (project c) \<noteq> project_id p) (filter is_PAK creds)))"
    by (rule distinct_map_filter)
  have fresh: "project_id p \<notin> (\<lambda>c. project_id (project c)) `
      set (filter (\<lambda>c. project_id (project c) \<noteq> project_id p) (filter is_PAK creds))"
    by auto
  have notpat: "\<not> is_PAT cred" using pak by (simp add: is_PAK_iff)
  have "length (filter is_PAT (filter (\<lambda>c. \<not> same_identity cred c) creds @ [cred])) \<le> 1"
    using assms notpat by (simp add: pats one_per_identity_def del: filter_filter)
  moreover have "distinct (map (\<lambda>c. project_id (project c))
      (filter is_PAK (filter (\<lambda>c. \<not> same_identity cred c) creds @ [cred])))"
    using d fresh pak by (simp add: paks p del: filter_filter)
  ultimately show ?thesis by (simp add: one_per_identity_def)
qed

lemma set_property_keys: "fst ` set (set_property k v hs) = insert k (fst ` set hs)"
  by (induction hs) auto

lemma set_property_distinct:
  "distinct (map fst hs) \<Longrightarrow> distinct (map fst (set_property k v hs))"
proof (induction hs)
  case Nil
  then show ?case by simp
next
  case (Cons p ps)
  have "fst p \<notin> fst ` set (set_property k v ps)" if "fst p \<noteq> k"
    using that Cons.prems by (simp add: set_property_keys)
  with Cons show ?case by auto
qed

lemma entries_named_other:
  "lower k \<noteq> lower h \<Longrightarrow> entries_named h (set_property k v hs) = entries_named h hs"
  by (induction hs) (auto simp: entries_named_def)

lemma entries_named_none:
  "\<forall>n\<in>fst ` set hs. lower n \<noteq> lower k \<Longrightarrow> entries_named k hs = []"
  by (auto simp: entries_named_def filter_empty_conv)

lemma entries_named_own:
  assumes "distinct (map fst hs)" and "\<forall>n\<in>fst ` set hs. lower n = lower k \<longrightarrow> n = k"
  shows "entries_named k (set_property k v hs) = [v]"
  using assms
proof (induction hs)
  case Nil
  then show ?case by (simp add: entries_named_def)
next
  case (Cons p ps)
  show ?case
  proof (cases "fst p = k")
    case True
    have "lower n \<noteq> lower k" if "n \<in> fst ` set ps" for n
    proof
      assume "lower n = lower k"
      with Cons.prems(2) that have "n = k" by auto
      with that True Cons.prems(1) show False by auto
    qed
    then have "entries_named k ps = []" by (simp add: entries_named_none)
    then show ?thesis using True by (simp add: entries_named_def)
  next
    case False
    with Cons.prems have "lower (fst p) \<noteq> lower k" by auto
    moreover have "entries_named k (set_property k v ps) = [v]"
      using Cons.IH Cons.prems by simp
    ultimately show ?thesis using False by (simp add: entries_named_def)
  qed
qed

lemma Headers_get_single: "entries_named h hs = [v] \<Longrightarrow> Headers_get h hs = Some (normalize_value v)"
  by (simp add: Headers_get_def)

lemma lower_names:
  "lower ''x-api-key'' = ''x-api-key''"
  "lower ''user-agent'' = ''user-agent''"
  "lower ''content-type'' = ''content-type''"
  by (simp_all add: lower_def lower_char_def)


lemma normalize_json_type: "normalize_value ''application/json'' = ''application/json''"
  by (simp add: normalize_value_def http_whitespace_def)

lemma issued_header_list:
  assumes "issued pf params req = Inr call"
  shows "f_headers call =
     set_property ''user-agent'' (user_agent pf)
       (fst (with_body pf (body req) (base_headers params req)))
   \<and> f_body call = snd (with_body pf (body req) (base_headers params req))"
  using assms by (auto simp: issued_def fetch_init_def split: sum.splits prod.splits)

subsection \<open>The example values, evaluated\<close>

lemmas example_defs =
  example_platform_def example_params_def example_params_unscoped_def answers_def
  unreachable_def parse_url_def parse_query_def split_at_def split_all_def decimal_def
  digits_of.simps quoted_def

lemmas client_defs =
  issued_def Client_request_def request_def fetch_init_def with_query_def with_body_def
  base_headers_def user_agent_def projectUrl_def ok_def descriptor_headers_def
  Headers_get_def entries_named_def lower_def lower_char_def normalize_value_def
  http_whitespace_def

lemmas credential_values =
  TG_1_def TG_2_def TG_3_def PAT_1_def PAT_2_def PAT_3_def PAT_4_def PAK_1_def PAK_2_def
  PAK_3_def test_now_def

lemma load_store_TG_1: "credentials_of load_store TG_1 = [PAK_2, PAK_1]"
  by (simp add: load_store_def credentials_of_save credentials_of_empty credential_values)

lemma load_store_TG_2: "credentials_of load_store TG_2 = [PAT_1]"
  by (simp add: load_store_def credentials_of_save credentials_of_empty credential_values)

lemma load_store_TG_3: "credentials_of load_store TG_3 = [PAT_4]"
  by (simp add: load_store_def credentials_of_save credentials_of_empty credential_values)


section \<open>Properties of the specification\<close>

text \<open>
  C1. For a host \<open>H\<close> whose list obeys the invariants of the store (at most one PAT, at
  most one PAK per project id) and every project id \<open>P\<close>: if a PAT that is not expired is
  stored for \<open>H\<close>, \<open>getApiKey\<close> returns the key of that PAT, whatever \<open>P\<close> is;
  otherwise, if a PAK that is not expired and whose project id is \<open>P\<close> is stored for
  \<open>H\<close>, it returns the key of that PAK; otherwise it returns \<open>None\<close> (\<^verbatim>\<open>null\<close>, a
  result and not an error).
\<close>

theorem getApiKey_priority:
  assumes "one_per_identity (credentials_of st H)"
  shows "(\<forall>c\<in>set (credentials_of st H). is_PAT c \<and> \<not> isExpired now c \<longrightarrow>
            fst (getApiKey now st H P) = Some (key c))
    \<and> ((\<forall>c\<in>set (credentials_of st H). is_PAT c \<longrightarrow> isExpired now c) \<longrightarrow>
         (\<forall>c\<in>set (credentials_of st H).
            is_PAK c \<and> \<not> isExpired now c \<and> project_id (project c) = P \<longrightarrow>
            fst (getApiKey now st H P) = Some (key c))
         \<and> ((\<forall>c\<in>set (credentials_of st H).
               is_PAK c \<and> \<not> isExpired now c \<longrightarrow> project_id (project c) \<noteq> P) \<longrightarrow>
             fst (getApiKey now st H P) = None))"
proof -
  let ?creds = "credentials_of st H"
  let ?valid = "filter (\<lambda>c. \<not> isExpired now c) ?creds"
  have res: "fst (getApiKey now st H P) = select_key ?valid P"
    by (simp add: getApiKey_def Let_def)
  have pat: "fst (getApiKey now st H P) = Some (key c)"
    if "c \<in> set ?creds" "is_PAT c" "\<not> isExpired now c" for c
  proof -
    from that have "\<not> (\<forall>x\<in>set ?valid. \<not> is_PAT x)" by auto
    then obtain d where d: "find is_PAT ?valid = Some d"
      using find_None [of is_PAT ?valid] by (cases "find is_PAT ?valid") auto
    then have "d \<in> set ?creds" "is_PAT d" using find_in [OF d] by auto
    with assms that have "d = c"
      using at_most_one [of is_PAT ?creds d c] by (simp add: one_per_identity_def)
    with d show ?thesis by (simp add: res select_key_def)
  qed
  have nopat: "find is_PAT ?valid = None"
    if "\<forall>c\<in>set ?creds. is_PAT c \<longrightarrow> isExpired now c"
    using that by (auto simp: find_None)
  have pak: "fst (getApiKey now st H P) = Some (key c)"
    if "\<forall>c\<in>set ?creds. is_PAT c \<longrightarrow> isExpired now c"
      "c \<in> set ?creds" "is_PAK c" "\<not> isExpired now c" "project_id (project c) = P" for c
  proof -
    let ?m = "\<lambda>c. is_PAK c \<and> project_id (project c) = P"
    from that have "\<not> (\<forall>x\<in>set ?valid. \<not> ?m x)" by auto
    then obtain d where d: "find ?m ?valid = Some d"
      using find_None [of ?m ?valid] by (cases "find ?m ?valid") auto
    then have "d \<in> set ?creds" "is_PAK d" "project_id (project d) = P"
      using find_in [OF d] by auto
    with assms that have "d = c"
      using one_per_key [of "\<lambda>c. project_id (project c)" is_PAK ?creds d c]
      by (simp add: one_per_identity_def)
    with d nopat [OF that(1)] show ?thesis by (simp add: res select_key_def)
  qed
  have none: "fst (getApiKey now st H P) = None"
    if "\<forall>c\<in>set ?creds. is_PAT c \<longrightarrow> isExpired now c"
      "\<forall>c\<in>set ?creds. is_PAK c \<and> \<not> isExpired now c \<longrightarrow> project_id (project c) \<noteq> P"
  proof -
    have "find (\<lambda>c. is_PAK c \<and> project_id (project c) = P) ?valid = None"
      using that(2) by (auto simp: find_None)
    with nopat [OF that(1)] show ?thesis by (simp add: res select_key_def)
  qed
  from pat pak none show ?thesis by blast
qed

theorem getApiKey_priority_witness:
  "one_per_identity (credentials_of load_store TG_2)
   \<and> one_per_identity (credentials_of load_store TG_1)
   \<and> PAT_1 \<in> set (credentials_of load_store TG_2)
   \<and> fst (getApiKey test_now load_store TG_2 1) = Some ''tgpat_xxxxxxxxxx''
   \<and> fst (getApiKey test_now load_store TG_2 (- 1)) = Some ''tgpat_xxxxxxxxxx''
   \<and> PAK_2 \<in> set (credentials_of load_store TG_1)
   \<and> fst (getApiKey test_now load_store TG_1 2) = Some ''tgpak_gjpw2zlpo4qhk53v''
   \<and> fst (getApiKey test_now load_store TG_1 3) = None"
proof -
  have inv2: "one_per_identity (credentials_of load_store TG_2)"
    by (simp add: load_store_TG_2 one_per_identity_def PAT_1_def)
  have inv1: "one_per_identity (credentials_of load_store TG_1)"
    by (simp add: load_store_TG_1 one_per_identity_def PAK_1_def PAK_2_def)
  have pat: "fst (getApiKey test_now load_store TG_2 P) = Some ''tgpat_xxxxxxxxxx''" for P
    using getApiKey_priority [OF inv2, of test_now P]
    by (simp add: load_store_TG_2 PAT_1_def isExpired_def)
  have pak: "fst (getApiKey test_now load_store TG_1 2) = Some ''tgpak_gjpw2zlpo4qhk53v''"
    using getApiKey_priority [OF inv1, of test_now 2]
    by (simp add: load_store_TG_1 PAK_1_def PAK_2_def isExpired_def)
  have none: "fst (getApiKey test_now load_store TG_1 3) = None"
    using getApiKey_priority [OF inv1, of test_now 3]
    by (simp add: load_store_TG_1 PAK_1_def PAK_2_def isExpired_def)
  from inv1 inv2 pat pak none show ?thesis
    by (simp add: load_store_TG_1 load_store_TG_2)
qed

text \<open>
  C2. A credential of the host whose \<open>expires\<close> is not 0 and earlier than the time of
  the call is never the one \<open>getApiKey\<close> returns: a key it returns is the key of a
  stored credential that is not expired (so it is not the key of the expired one, unless
  a valid credential of the host has that very key). The call removes it from the
  persisted document: the list of the host afterwards is the list of its credentials
  that are not expired, and a later load no longer contains the expired one. The lists of
  the other hosts are as they were.
\<close>

theorem getApiKey_prunes:
  "(\<forall>c\<in>set (credentials_of st H). isExpired now c \<longrightarrow>
       c \<notin> set (credentials_of (snd (getApiKey now st H P)) H))
   \<and> credentials_of (snd (getApiKey now st H P)) H =
       filter (\<lambda>c. \<not> isExpired now c) (credentials_of st H)
   \<and> (\<forall>k. fst (getApiKey now st H P) = Some k \<longrightarrow>
        (\<exists>c\<in>set (credentials_of st H). \<not> isExpired now c \<and> key c = k))
   \<and> (\<forall>c\<in>set (credentials_of st H).
        isExpired now c \<and> (\<forall>d\<in>set (credentials_of st H). key d = key c \<longrightarrow> isExpired now d) \<longrightarrow>
        fst (getApiKey now st H P) \<noteq> Some (key c))
   \<and> (\<forall>H'. H' \<noteq> H \<longrightarrow> snd (getApiKey now st H P) H' = st H')"
proof -
  let ?creds = "credentials_of st H"
  let ?valid = "filter (\<lambda>c. \<not> isExpired now c) ?creds"
  have after: "credentials_of (snd (getApiKey now st H P)) H = ?valid"
  proof (cases "filter (isExpired now) ?creds = []")
    case True
    then have "?valid = ?creds" by (simp add: filter_empty_conv filter_id_conv)
    with True show ?thesis by (simp add: getApiKey_def Let_def)
  next
    case False
    then show ?thesis by (simp add: getApiKey_def Let_def credentials_of_def)
  qed
  have sel: "\<exists>c\<in>set ?creds. \<not> isExpired now c \<and> key c = k"
    if "fst (getApiKey now st H P) = Some k" for k
    using select_key_valid [of ?valid P k] that by (auto simp: getApiKey_def Let_def)
  have others: "snd (getApiKey now st H P) H' = st H'" if "H' \<noteq> H" for H'
    using that by (simp add: getApiKey_def Let_def)
  from after sel others show ?thesis by (auto simp: after)
qed

theorem getApiKey_prunes_witness:
  "PAT_4 \<in> set (credentials_of load_store TG_3)
   \<and> isExpired test_now PAT_4
   \<and> PAT_4 \<notin> set (credentials_of (snd (getApiKey test_now load_store TG_3 (- 1))) TG_3)
   \<and> credentials_of (snd (getApiKey test_now load_store TG_3 (- 1))) TG_3 = []
   \<and> fst (getApiKey test_now load_store TG_3 (- 1)) \<noteq> Some ''tgpat_expired''
   \<and> snd (getApiKey test_now load_store TG_3 (- 1)) TG_2 = load_store TG_2"
proof -
  have exp: "isExpired test_now PAT_4"
    by (simp add: isExpired_def PAT_4_def test_now_def)
  have ne: "TG_2 \<noteq> TG_3"
    by (simp add: TG_2_def TG_3_def)
  from getApiKey_prunes [of load_store TG_3 test_now "- 1"] exp ne show ?thesis
    by (simp add: load_store_TG_3 PAT_4_def)
qed

text \<open>
  C3. \<open>saveApiKey\<close> keeps the invariant of the store, at most one PAT per host and at
  most one PAK per host and project id. After a save the new credential is stored for the
  host; if it is a PAT it is the only PAT of the host, if it is a PAK it is the only PAK
  of its project id on the host; the PAKs of the host with another project id (all of
  its PAKs, when a PAT is saved) and its PAT (when a PAK is saved) are still stored, and
  the lists of the other hosts are as they were.
\<close>

theorem saveApiKey_replaces:
  "(one_per_identity (credentials_of st H) \<longrightarrow>
      one_per_identity (credentials_of (saveApiKey st H cred) H))
   \<and> (store_invariant st \<longrightarrow> store_invariant (saveApiKey st H cred))
   \<and> cred \<in> set (credentials_of (saveApiKey st H cred) H)
   \<and> (is_PAT cred \<longrightarrow> (\<forall>c\<in>set (credentials_of (saveApiKey st H cred) H). is_PAT c \<longrightarrow> c = cred))
   \<and> (is_PAK cred \<longrightarrow>
        (\<forall>c\<in>set (credentials_of (saveApiKey st H cred) H).
           is_PAK c \<and> project_id (project c) = project_id (project cred) \<longrightarrow> c = cred))
   \<and> (\<forall>c\<in>set (credentials_of st H).
        is_PAK c \<and> (is_PAT cred \<or> project_id (project c) \<noteq> project_id (project cred)) \<longrightarrow>
        c \<in> set (credentials_of (saveApiKey st H cred) H))
   \<and> (\<forall>c\<in>set (credentials_of st H). is_PAT c \<and> is_PAK cred \<longrightarrow>
        c \<in> set (credentials_of (saveApiKey st H cred) H))
   \<and> (\<forall>H'. H' \<noteq> H \<longrightarrow> saveApiKey st H cred H' = st H')"
proof -
  have inv: "one_per_identity (credentials_of (saveApiKey st H cred) H)"
    if "one_per_identity (credentials_of st H)"
    using one_per_identity_save [OF that] by (simp add: credentials_of_save)
  have glob: "store_invariant (saveApiKey st H cred)" if "store_invariant st"
    unfolding store_invariant_def
  proof
    fix H'
    from that have "one_per_identity (credentials_of st H)" "one_per_identity (credentials_of st H')"
      by (simp_all add: store_invariant_def)
    then show "one_per_identity (credentials_of (saveApiKey st H cred) H')"
      using one_per_identity_save [of "credentials_of st H" cred]
      by (simp add: credentials_of_save)
  qed
  have pat: "c = cred"
    if "is_PAT cred" "c \<in> set (credentials_of (saveApiKey st H cred) H)" "is_PAT c" for c
    using that by (auto simp: credentials_of_save same_identity_PAT)
  have pak: "c = cred"
    if "is_PAK cred" "c \<in> set (credentials_of (saveApiKey st H cred) H)" "is_PAK c"
      "project_id (project c) = project_id (project cred)" for c
    using that by (auto simp: credentials_of_save same_identity_PAK)
  have keep1: "c \<in> set (credentials_of (saveApiKey st H cred) H)"
    if "c \<in> set (credentials_of st H)" "is_PAK c"
      "is_PAT cred \<or> project_id (project c) \<noteq> project_id (project cred)" for c
    using that
    by (cases "is_PAT cred")
      (auto simp: credentials_of_save same_identity_PAT same_identity_PAK is_PAK_iff)
  have keep2: "c \<in> set (credentials_of (saveApiKey st H cred) H)"
    if "c \<in> set (credentials_of st H)" "is_PAT c" "is_PAK cred" for c
    using that by (auto simp: credentials_of_save same_identity_PAK is_PAK_iff)
  have others: "saveApiKey st H cred H' = st H'" if "H' \<noteq> H" for H'
    using that by (simp add: saveApiKey_def)
  have mem: "cred \<in> set (credentials_of (saveApiKey st H cred) H)"
    by (simp add: credentials_of_save)
  from inv glob pat pak keep1 keep2 others mem show ?thesis by blast
qed

theorem saveApiKey_replaces_witness:
  "store_invariant Map.empty
   \<and> store_invariant load_store
   \<and> one_per_identity (credentials_of (saveApiKey load_store TG_1 PAK_3) TG_1)
   \<and> is_PAK PAK_3
   \<and> PAK_2 \<in> set (credentials_of load_store TG_1)
   \<and> PAK_3 \<in> set (credentials_of (saveApiKey load_store TG_1 PAK_3) TG_1)
   \<and> PAK_2 \<in> set (credentials_of (saveApiKey load_store TG_1 PAK_3) TG_1)
   \<and> PAK_1 \<notin> set (credentials_of (saveApiKey load_store TG_1 PAK_3) TG_1)
   \<and> is_PAT PAT_3
   \<and> PAT_1 \<in> set (credentials_of load_store TG_2)
   \<and> PAT_1 \<notin> set (credentials_of (saveApiKey load_store TG_2 PAT_3) TG_2)
   \<and> saveApiKey load_store TG_2 PAT_3 TG_1 = load_store TG_1"
proof -
  have e: "store_invariant Map.empty"
    by (simp add: store_invariant_def credentials_of_empty one_per_identity_def)
  have step: "store_invariant (saveApiKey s h c)" if "store_invariant s" for s h c
    using saveApiKey_replaces [of s h c] that by blast
  have l: "store_invariant load_store"
    unfolding load_store_def by (intro step e)
  then have i1: "one_per_identity (credentials_of load_store TG_1)"
    by (simp add: store_invariant_def)
  have pak3: "is_PAK PAK_3" and pat3: "is_PAT PAT_3"
    by (simp_all add: PAK_3_def PAT_3_def)
  have mem2: "PAK_2 \<in> set (credentials_of load_store TG_1)"
    and mem1: "PAK_1 \<in> set (credentials_of load_store TG_1)"
    and memp: "PAT_1 \<in> set (credentials_of load_store TG_2)"
    by (simp_all add: load_store_TG_1 load_store_TG_2)
  note s1 = saveApiKey_replaces [of load_store TG_1 PAK_3]
  note s2 = saveApiKey_replaces [of load_store TG_2 PAT_3]
  have a: "one_per_identity (credentials_of (saveApiKey load_store TG_1 PAK_3) TG_1)"
    using s1 i1 by blast
  have b: "PAK_3 \<in> set (credentials_of (saveApiKey load_store TG_1 PAK_3) TG_1)"
    using s1 by blast
  have "is_PAK PAK_2 \<and> project_id (project PAK_2) \<noteq> project_id (project PAK_3)"
    by (simp add: PAK_2_def PAK_3_def)
  with s1 mem2 have c: "PAK_2 \<in> set (credentials_of (saveApiKey load_store TG_1 PAK_3) TG_1)"
    by blast
  have "is_PAK PAK_1 \<and> project_id (project PAK_1) = project_id (project PAK_3) \<and> PAK_1 \<noteq> PAK_3"
    by (simp add: PAK_1_def PAK_3_def)
  with s1 pak3 have d: "PAK_1 \<notin> set (credentials_of (saveApiKey load_store TG_1 PAK_3) TG_1)"
    by blast
  have "is_PAT PAT_1 \<and> PAT_1 \<noteq> PAT_3"
    by (simp add: PAT_1_def PAT_3_def)
  with s2 pat3 have f: "PAT_1 \<notin> set (credentials_of (saveApiKey load_store TG_2 PAT_3) TG_2)"
    by blast
  have "TG_1 \<noteq> TG_2" by (simp add: TG_1_def TG_2_def)
  with s2 have g: "saveApiKey load_store TG_2 PAT_3 TG_1 = load_store TG_1"
    by blast
  from e l a pak3 mem2 b c d pat3 memp f g show ?thesis by blast
qed

text \<open>
  C4 (as the code has it). For every descriptor whose request is issued: if the body is
  absent or falsy (\<^verbatim>\<open>undefined\<close>, \<^verbatim>\<open>null\<close>, \<^verbatim>\<open>false\<close>, \<^verbatim>\<open>0\<close>, \<^verbatim>\<open>''\<close>), the
  request has no body and the client sets no \<^verbatim>\<open>content-type\<close>: the header of the
  request is what the headers of the descriptor make it, absent if they name none. If
  the body is a multipart form payload, the body of the request is its encoded bytes; for
  any other truthy body, it is the JSON encoding of the body. In these two cases, if the
  descriptor supplies no header whose name is \<^verbatim>\<open>content-type\<close> in another letter case
  (one named exactly \<^verbatim>\<open>content-type\<close> is overwritten), the \<^verbatim>\<open>content-type\<close> of the
  request is \<^verbatim>\<open>multipart/form-data\<close> with the boundary of the payload, and
  \<^verbatim>\<open>application/json\<close>.
\<close>

theorem issued_body:
  assumes "issued pf params req = Inr call"
    and "distinct (map fst (descriptor_headers req))"
  shows "(\<not> truthy (body req) \<longrightarrow>
            f_body call = None
            \<and> entries_named ''content-type'' (f_headers call) =
                entries_named ''content-type'' (descriptor_headers req)
            \<and> Headers_get ''content-type'' (f_headers call) =
                Headers_get ''content-type'' (descriptor_headers req))
    \<and> (\<forall>fd. body req = FormDataBody fd \<longrightarrow>
            f_body call = Some (buffer fd)
            \<and> ((\<forall>n\<in>fst ` set (descriptor_headers req).
                   lower n = ''content-type'' \<longrightarrow> n = ''content-type'') \<longrightarrow>
               Headers_get ''content-type'' (f_headers call) =
                 Some (normalize_value (''multipart/form-data; boundary='' @ boundary fd))))
    \<and> (\<forall>j. body req = JsonBody j \<and> truthy_json j \<longrightarrow>
            f_body call = Some (JSON_stringify pf j)
            \<and> ((\<forall>n\<in>fst ` set (descriptor_headers req).
                   lower n = ''content-type'' \<longrightarrow> n = ''content-type'') \<longrightarrow>
               Headers_get ''content-type'' (f_headers call) = Some ''application/json''))"
proof -
  let ?D = "descriptor_headers req"
  let ?base = "base_headers params req"
  note call = issued_header_list [OF assms(1)]
  have base_distinct: "distinct (map fst ?base)"
    using assms(2) by (simp add: base_headers_def set_property_distinct)
  have ua: "entries_named ''content-type'' (set_property ''user-agent'' v hs) =
      entries_named ''content-type'' hs" for v hs
    by (simp add: entries_named_other lower_names)
  have base: "entries_named ''content-type'' ?base = entries_named ''content-type'' ?D"
    by (simp add: base_headers_def entries_named_other lower_names)
  have set: "entries_named ''content-type''
      (set_property ''user-agent'' (user_agent pf) (set_property ''content-type'' v ?base)) = [v]"
    if "\<forall>n\<in>fst ` set ?D. lower n = ''content-type'' \<longrightarrow> n = ''content-type''" for v
  proof -
    have "\<forall>n\<in>fst ` set ?base. lower n = lower ''content-type'' \<longrightarrow> n = ''content-type''"
      using that by (auto simp: base_headers_def set_property_keys lower_names)
    then show ?thesis
      using entries_named_own [OF base_distinct, of "''content-type''" v] by (simp add: ua)
  qed
  have falsy: "f_body call = None
      \<and> entries_named ''content-type'' (f_headers call) = entries_named ''content-type'' ?D"
    if "\<not> truthy (body req)"
    using that call by (simp add: with_body_def ua base)
  have form: "f_body call = Some (buffer fd)
      \<and> ((\<forall>n\<in>fst ` set ?D. lower n = ''content-type'' \<longrightarrow> n = ''content-type'') \<longrightarrow>
         Headers_get ''content-type'' (f_headers call) =
           Some (normalize_value (''multipart/form-data; boundary='' @ boundary fd)))"
    if "body req = FormDataBody fd" for fd
    using that call set [of "''multipart/form-data; boundary='' @ boundary fd"]
    by (simp add: with_body_def Headers_get_single)
  have json: "f_body call = Some (JSON_stringify pf j)
      \<and> ((\<forall>n\<in>fst ` set ?D. lower n = ''content-type'' \<longrightarrow> n = ''content-type'') \<longrightarrow>
         Headers_get ''content-type'' (f_headers call) = Some ''application/json'')"
    if "body req = JsonBody j" "truthy_json j" for j
    using that call set [of "''application/json''"]
    by (simp add: with_body_def Headers_get_single normalize_json_type)
  from falsy form json show ?thesis
    by (simp add: Headers_get_def)
qed

theorem issued_body_witness:
  "(\<exists>call. issued (example_platform (answers 200)) example_params
       \<lparr>http_method = POST, path = ''/v2/projects/1337/keys'',
        body = JsonBody (JObject [(''name'', JString ''hello''), (''tags'', JArray [JNumber 1])]),
        query = None, headers = Some [(''content-type'', ''text/plain'')]\<rparr> = Inr call
     \<and> f_body call =
         Some (''{'' @ quoted ''name'' @ '':'' @ quoted ''hello'' @ '','' @ quoted ''tags'' @ '':[1]}'')
     \<and> Headers_get ''content-type'' (f_headers call) = Some ''application/json'')
   \<and> (\<exists>call. issued (example_platform (answers 200)) example_params
       \<lparr>http_method = POST, path = ''/v2/projects/1337/import'',
        body = FormDataBody \<lparr>boundary = ''----0042'', buffer = ''bytes''\<rparr>,
        query = None, headers = None\<rparr> = Inr call
     \<and> f_body call = Some ''bytes''
     \<and> Headers_get ''content-type'' (f_headers call) =
         Some ''multipart/form-data; boundary=----0042'')
   \<and> (\<exists>call. issued (example_platform (answers 200)) example_params
       \<lparr>http_method = GET, path = ''/v2/projects/1337/keys'', body = NoBody,
        query = None, headers = None\<rparr> = Inr call
     \<and> f_body call = None
     \<and> Headers_get ''content-type'' (f_headers call) = None)"
proof -
  let ?pf = "example_platform (answers 200)"
  let ?j = "JObject [(''name'', JString ''hello''), (''tags'', JArray [JNumber 1])]"
  let ?r1 = "\<lparr>http_method = POST, path = ''/v2/projects/1337/keys'', body = JsonBody ?j,
        query = None, headers = Some [(''content-type'', ''text/plain'')]\<rparr>"
  let ?fd = "\<lparr>boundary = ''----0042'', buffer = ''bytes''\<rparr>"
  let ?r2 = "\<lparr>http_method = POST, path = ''/v2/projects/1337/import'', body = FormDataBody ?fd,
        query = None, headers = None\<rparr>"
  let ?r3 = "\<lparr>http_method = GET, path = ''/v2/projects/1337/keys'', body = NoBody,
        query = None, headers = None\<rparr>"
  obtain c1 where c1: "issued ?pf example_params ?r1 = Inr c1"
    by (simp add: issued_def example_platform_def parse_url_def with_body_def)
  obtain c2 where c2: "issued ?pf example_params ?r2 = Inr c2"
    by (simp add: issued_def example_platform_def parse_url_def with_body_def)
  obtain c3 where c3: "issued ?pf example_params ?r3 = Inr c3"
    by (simp add: issued_def example_platform_def parse_url_def with_body_def)
  have d1: "distinct (map fst (descriptor_headers ?r1))"
    and d2: "distinct (map fst (descriptor_headers ?r2))"
    and d3: "distinct (map fst (descriptor_headers ?r3))"
    by (simp_all add: descriptor_headers_def)
  from issued_body [OF c1 d1] have a:
    "f_body c1 = Some (JSON_stringify ?pf ?j)"
    "Headers_get ''content-type'' (f_headers c1) = Some ''application/json''"
    by (simp_all add: descriptor_headers_def lower_names)
  from issued_body [OF c2 d2] have b:
    "f_body c2 = Some ''bytes''"
    "Headers_get ''content-type'' (f_headers c2) =
       Some (normalize_value ''multipart/form-data; boundary=----0042'')"
    by (simp_all add: descriptor_headers_def)
  from issued_body [OF c3 d3] have c:
    "f_body c3 = None"
    "Headers_get ''content-type'' (f_headers c3) = None"
    by (simp_all add: descriptor_headers_def Headers_get_def entries_named_def)
  from a c1 have "\<exists>call. issued ?pf example_params ?r1 = Inr call
     \<and> f_body call =
         Some (''{'' @ quoted ''name'' @ '':'' @ quoted ''hello'' @ '','' @ quoted ''tags'' @ '':[1]}'')
     \<and> Headers_get ''content-type'' (f_headers call) = Some ''application/json''"
    by (simp add: example_platform_def decimal_def digits_of.simps)
  moreover from b c2 have "\<exists>call. issued ?pf example_params ?r2 = Inr call
     \<and> f_body call = Some ''bytes''
     \<and> Headers_get ''content-type'' (f_headers call) =
         Some ''multipart/form-data; boundary=----0042''"
    by (simp add: normalize_value_def http_whitespace_def)
  moreover from c c3 have "\<exists>call. issued ?pf example_params ?r3 = Inr call
     \<and> f_body call = None
     \<and> Headers_get ''content-type'' (f_headers call) = None"
    by simp
  ultimately show ?thesis by blast
qed

theorem issued_body_counterexample:
  "(\<exists>call. issued (example_platform (answers 200)) example_params
       \<lparr>http_method = POST, path = ''/v2/projects/1337/keys'', body = JsonBody (JBoolean False),
        query = None, headers = None\<rparr> = Inr call
     \<and> f_body call = None \<and> Headers_get ''content-type'' (f_headers call) = None)
   \<and> (\<exists>call. issued (example_platform (answers 200)) example_params
       \<lparr>http_method = GET, path = ''/v2/projects/1337/keys'', body = NoBody,
        query = None, headers = Some [(''content-type'', ''text/plain'')]\<rparr> = Inr call
     \<and> f_body call = None \<and> Headers_get ''content-type'' (f_headers call) = Some ''text/plain'')
   \<and> (\<exists>call. issued (example_platform (answers 200)) example_params
       \<lparr>http_method = POST, path = ''/v2/projects/1337/keys'',
        body = JsonBody (JObject [(''name'', JString ''hello'')]),
        query = None, headers = Some [(''Content-Type'', ''text/plain'')]\<rparr> = Inr call
     \<and> Headers_get ''content-type'' (f_headers call) = Some ''text/plain, application/json'')"
  by (simp add: client_defs example_defs)

text \<open>
  C5. \<^verbatim>\<open>request\<close> rejects with an \<open>HttpError\<close> that carries the response \<^verbatim>\<open>fetch\<close>
  resolved with, as it is (its body stream not read), exactly when the status of that
  response is outside 200..299; a response with a status inside 200..299 is returned to
  the caller as it is. The same holds of \<^verbatim>\<open>Client.request\<close>, for the call it issues.
\<close>

theorem request_http_error_iff_not_2xx:
  "(request pf u m hs b = Inl (HttpError res)) =
     (fetch pf (fetch_init pf u m hs b) = Inr res \<and> \<not> (200 \<le> status res \<and> status res \<le> 299))
   \<and> (request pf u m hs b = Inr res) =
     (fetch pf (fetch_init pf u m hs b) = Inr res \<and> 200 \<le> status res \<and> status res \<le> 299)
   \<and> (Client_request pf params req = Inl (HttpError res)) =
     (\<exists>call. issued pf params req = Inr call \<and> fetch pf call = Inr res
        \<and> \<not> (200 \<le> status res \<and> status res \<le> 299))
   \<and> (Client_request pf params req = Inr res) =
     (\<exists>call. issued pf params req = Inr call \<and> fetch pf call = Inr res
        \<and> 200 \<le> status res \<and> status res \<le> 299)"
proof -
  have a: "(request pf u m hs b = Inl (HttpError res)) =
     (fetch pf (fetch_init pf u m hs b) = Inr res \<and> \<not> (200 \<le> status res \<and> status res \<le> 299))"
    by (auto simp: request_def ok_def split: sum.splits)
  have b: "(request pf u m hs b = Inr res) =
     (fetch pf (fetch_init pf u m hs b) = Inr res \<and> 200 \<le> status res \<and> status res \<le> 299)"
    by (auto simp: request_def ok_def split: sum.splits)
  have c: "(Client_request pf params req = Inl (HttpError res)) =
     (\<exists>call. issued pf params req = Inr call \<and> fetch pf call = Inr res
        \<and> \<not> (200 \<le> status res \<and> status res \<le> 299))"
    by (auto simp: Client_request_issued ok_def split: sum.splits dest: issued_error)
  have d: "(Client_request pf params req = Inr res) =
     (\<exists>call. issued pf params req = Inr call \<and> fetch pf call = Inr res
        \<and> 200 \<le> status res \<and> status res \<le> 299)"
    by (auto simp: Client_request_issued ok_def split: sum.splits)
  from a b c d show ?thesis by simp
qed

theorem request_http_error_iff_not_2xx_witness:
  "request (example_platform (answers 404))
       \<lparr>href_base = ''https://app.tolgee.io/v2/projects'', searchParams = []\<rparr> GET [] None =
     Inl (HttpError \<lparr>status = 404, statusText = [], res_headers = Map.empty,
       res_body = Some \<lparr>unread = [''{}''], failure = None, ended = False\<rparr>\<rparr>)
   \<and> request (example_platform (answers 204))
       \<lparr>href_base = ''https://app.tolgee.io/v2/projects'', searchParams = []\<rparr> GET [] None =
     Inr \<lparr>status = 204, statusText = [], res_headers = Map.empty,
       res_body = Some \<lparr>unread = [''{}''], failure = None, ended = False\<rparr>\<rparr>"
proof -
  let ?u = "\<lparr>href_base = ''https://app.tolgee.io/v2/projects'', searchParams = []\<rparr>"
  let ?r = "\<lambda>code. \<lparr>status = code, statusText = [], res_headers = Map.empty,
       res_body = Some \<lparr>unread = [''{}''], failure = None, ended = False\<rparr>\<rparr>"
  have f: "fetch (example_platform (answers code))
      (fetch_init (example_platform (answers code)) ?u GET [] None) = Inr (?r code)" for code
    by (simp add: example_platform_def answers_def)
  have a: "request (example_platform (answers 404)) ?u GET [] None = Inl (HttpError (?r 404))"
    using request_http_error_iff_not_2xx
      [of "example_platform (answers 404)" ?u GET "[]" None "?r 404"] f [of 404]
    by simp
  have b: "request (example_platform (answers 204)) ?u GET [] None = Inr (?r 204)"
    using request_http_error_iff_not_2xx
      [of "example_platform (answers 204)" ?u GET "[]" None "?r 204"] f [of 204]
    by simp
  from a b show ?thesis by simp
qed

text \<open>
  C6 (as the code has it). For every descriptor whose query mapping is an object (its
  keys distinct) and whose path makes a URL: a request is issued, and in its URL each key
  with a defined scalar value has exactly one pair, with that value; each key with a list
  value has one pair per element, in list order, after the pairs of that name that the
  query string of the path itself carries; a key whose value is \<^verbatim>\<open>undefined\<close> adds no
  pair, so the URL has pairs of that name only if the query string of the path has them
  (none, for a path without a query string).
\<close>

theorem query_serialised:
  assumes "new_URL pf (path req) (apiUrl params) = Inr u"
    and "query req = Some q" and "distinct (map fst q)" and "(k, val) \<in> set q"
  shows "\<exists>call. issued pf params req = Inr call
     \<and> getAll k (searchParams (f_url call)) =
         (case val of
            Scalar v \<Rightarrow> [String_of pf v]
          | Array vs \<Rightarrow> getAll k (searchParams u) @ map (String_of pf) vs
          | Undefined \<Rightarrow> getAll k (searchParams u))"
proof -
  obtain hs b where hb: "with_body pf (body req) (base_headers params req) = (hs, b)"
    by (cases "with_body pf (body req) (base_headers params req)")
  let ?call = "fetch_init pf (with_query pf req u) (http_method req) hs b"
  have call: "issued pf params req = Inr ?call"
    using assms(1) hb by (simp add: issued_def)
  have "searchParams (f_url ?call) = add_query pf q (searchParams u)"
    using assms(2) by (simp add: fetch_init_def with_query_def)
  then have "getAll k (searchParams (f_url ?call)) =
         (case val of
            Scalar v \<Rightarrow> [String_of pf v]
          | Array vs \<Rightarrow> getAll k (searchParams u) @ map (String_of pf) vs
          | Undefined \<Rightarrow> getAll k (searchParams u))"
    using getAll_add_query [OF assms(3,4)] by simp
  with call show ?thesis by blast
qed

theorem query_serialised_witness:
  "new_URL (example_platform (answers 200)) ''/v2/projects/1337/export'' (apiUrl example_params)
     = Inr \<lparr>href_base = ''https://app.tolgee.io/v2/projects/1337/export'', searchParams = []\<rparr>
   \<and> distinct (map fst [(''format'', Scalar (PString ''JSON'')),
        (''languages'', Array [PString ''en'', PString ''de'']),
        (''zip'', Scalar (PBoolean False)),
        (''filterTag'', Undefined)])
   \<and> (\<exists>call. issued (example_platform (answers 200)) example_params
         \<lparr>http_method = GET, path = ''/v2/projects/1337/export'', body = NoBody,
          query = Some [(''format'', Scalar (PString ''JSON'')),
            (''languages'', Array [PString ''en'', PString ''de'']),
            (''zip'', Scalar (PBoolean False)),
            (''filterTag'', Undefined)],
          headers = None\<rparr> = Inr call
       \<and> getAll ''languages'' (searchParams (f_url call)) = [''en'', ''de''])
   \<and> (\<exists>call. issued (example_platform (answers 200)) example_params
         \<lparr>http_method = GET, path = ''/v2/projects/1337/export'', body = NoBody,
          query = Some [(''format'', Scalar (PString ''JSON'')),
            (''languages'', Array [PString ''en'', PString ''de'']),
            (''zip'', Scalar (PBoolean False)),
            (''filterTag'', Undefined)],
          headers = None\<rparr> = Inr call
       \<and> getAll ''zip'' (searchParams (f_url call)) = [''false''])
   \<and> (\<exists>call. issued (example_platform (answers 200)) example_params
         \<lparr>http_method = GET, path = ''/v2/projects/1337/export'', body = NoBody,
          query = Some [(''format'', Scalar (PString ''JSON'')),
            (''languages'', Array [PString ''en'', PString ''de'']),
            (''zip'', Scalar (PBoolean False)),
            (''filterTag'', Undefined)],
          headers = None\<rparr> = Inr call
       \<and> getAll ''filterTag'' (searchParams (f_url call)) = [])"
proof -
  let ?pf = "example_platform (answers 200)"
  let ?q = "[(''format'', Scalar (PString ''JSON'')),
        (''languages'', Array [PString ''en'', PString ''de'']),
        (''zip'', Scalar (PBoolean False)),
        (''filterTag'', Undefined)]"
  let ?req = "\<lparr>http_method = GET, path = ''/v2/projects/1337/export'', body = NoBody,
          query = Some ?q, headers = None\<rparr>"
  let ?u = "\<lparr>href_base = ''https://app.tolgee.io/v2/projects/1337/export'', searchParams = []\<rparr>"
  have u: "new_URL ?pf (path ?req) (apiUrl example_params) = Inr ?u"
    by (simp add: example_defs)
  have q: "query ?req = Some ?q" by simp
  have d: "distinct (map fst ?q)" by simp
  have m1: "(''languages'', Array [PString ''en'', PString ''de'']) \<in> set ?q"
    and m2: "(''zip'', Scalar (PBoolean False)) \<in> set ?q"
    and m3: "(''filterTag'', Undefined) \<in> set ?q"
    by simp_all
  from query_serialised [OF u q d m1] query_serialised [OF u q d m2]
    query_serialised [OF u q d m3] u d
  show ?thesis by (simp add: getAll_def)
qed

theorem query_serialised_counterexample:
  "(\<exists>call. issued (example_platform (answers 200)) example_params
       \<lparr>http_method = PUT, path = ''/v2/projects/1337/import/apply?forceMode=KEEP'',
        body = NoBody, query = Some [(''forceMode'', Undefined)], headers = None\<rparr> = Inr call
     \<and> getAll ''forceMode'' (searchParams (f_url call)) = [''KEEP''])
   \<and> (\<exists>call. issued (example_platform (answers 200)) example_params
       \<lparr>http_method = GET, path = ''/v2/projects/1337/export?languages=en'',
        body = NoBody, query = Some [(''languages'', Array [PString ''de''])],
        headers = None\<rparr> = Inr call
     \<and> getAll ''languages'' (searchParams (f_url call)) = [''en'', ''de''])"
  by (simp add: client_defs example_defs getAll_def searchParams_append_def)

text \<open>
  C7. \<^verbatim>\<open>deleteImportIfExists\<close> completes without error when \<^verbatim>\<open>deleteImport\<close> fails
  with an \<open>HttpError\<close> whose response has the status 404 (and when it succeeds); every
  other failure of \<^verbatim>\<open>deleteImport\<close>, an \<open>HttpError\<close> of another status or an error
  that is not an \<open>HttpError\<close>, is the failure of \<^verbatim>\<open>deleteImportIfExists\<close>, unchanged.
\<close>

theorem deleteImportIfExists_404:
  "(deleteImport pf params = Inl (HttpError res) \<and> status res = 404 \<longrightarrow>
      deleteImportIfExists pf params = Inr ())
   \<and> (deleteImport pf params = Inl e \<and> (\<forall>r. e = HttpError r \<longrightarrow> status r \<noteq> 404) \<longrightarrow>
      deleteImportIfExists pf params = Inl e)
   \<and> (deleteImport pf params = Inr () \<longrightarrow> deleteImportIfExists pf params = Inr ())"
  by (auto simp: deleteImportIfExists_def split: sum.splits error.splits)

theorem deleteImportIfExists_404_witness:
  "deleteImport (example_platform (answers 404)) example_params =
     Inl (HttpError \<lparr>status = 404, statusText = [], res_headers = Map.empty,
       res_body = Some \<lparr>unread = [''{}''], failure = None, ended = False\<rparr>\<rparr>)
   \<and> deleteImportIfExists (example_platform (answers 404)) example_params = Inr ()
   \<and> deleteImport (example_platform (answers 500)) example_params =
     Inl (HttpError \<lparr>status = 500, statusText = [], res_headers = Map.empty,
       res_body = Some \<lparr>unread = [''{}''], failure = None, ended = False\<rparr>\<rparr>)
   \<and> deleteImportIfExists (example_platform (answers 500)) example_params =
     Inl (HttpError \<lparr>status = 500, statusText = [], res_headers = Map.empty,
       res_body = Some \<lparr>unread = [''{}''], failure = None, ended = False\<rparr>\<rparr>)
   \<and> deleteImport (example_platform unreachable) example_params = Inl (FetchError ''ECONNREFUSED'')
   \<and> deleteImportIfExists (example_platform unreachable) example_params =
     Inl (FetchError ''ECONNREFUSED'')"
proof -
  let ?r = "\<lambda>code. \<lparr>status = code, statusText = [], res_headers = Map.empty,
       res_body = Some \<lparr>unread = [''{}''], failure = None, ended = False\<rparr>\<rparr>"
  have a: "deleteImport (example_platform (answers 404)) example_params = Inl (HttpError (?r 404))"
    by (simp add: deleteImport_def requestVoid_def deleteImport_data_def client_defs example_defs)
  have b: "deleteImport (example_platform (answers 500)) example_params = Inl (HttpError (?r 500))"
    by (simp add: deleteImport_def requestVoid_def deleteImport_data_def client_defs example_defs)
  have c: "deleteImport (example_platform unreachable) example_params
      = Inl (FetchError ''ECONNREFUSED'')"
    by (simp add: deleteImport_def requestVoid_def deleteImport_data_def client_defs example_defs)
  have a': "deleteImportIfExists (example_platform (answers 404)) example_params = Inr ()"
    using deleteImportIfExists_404 [of "example_platform (answers 404)" example_params "?r 404"] a
    by simp
  have b': "deleteImportIfExists (example_platform (answers 500)) example_params
      = Inl (HttpError (?r 500))"
    using deleteImportIfExists_404 [of "example_platform (answers 500)" example_params _
        "HttpError (?r 500)"] b
    by simp
  have c': "deleteImportIfExists (example_platform unreachable) example_params
      = Inl (FetchError ''ECONNREFUSED'')"
    using deleteImportIfExists_404 [of "example_platform unreachable" example_params _
        "FetchError ''ECONNREFUSED''"] c
    by simp
  from a a' b b' c c' show ?thesis by simp
qed









end
